theory Spec2Isabelle
  imports Complex_Main "HOL-Library.Word"
begin

section \<open>Data model\<close>

text \<open>
  A \<open>Buffer\<close> of Node.js is a sequence of bytes. A JavaScript string is a sequence of
  UTF-16 code units. Timestamps are the integer milliseconds that \<open>Date.now()\<close> returns;
  every function that reads the clock takes the reading as an argument.
\<close>

type_synonym buffer = "8 word list"

type_synonym js_string = "16 word list"

text \<open>
  An \<open>AbortController\<close> is an object shared between the state entry that stores it and
  the streaming code that was handed it. The model names each controller by a number and
  keeps the \<open>signal.aborted\<close> flag of all of them in one set beside the connection map.
\<close>

type_synonym controller = nat

text \<open>The object literal that \<open>StateManager.initialize\<close> stores (stateManager.js, 22-38).\<close>

record conn_state =
  connectionId :: string
  consultantId :: int
  userId :: int
  isUserSpeaking :: bool
  isAISpeaking :: bool
  lastUserAudioTime :: "int option"
  lastAIAudioTime :: "int option"
  silenceStartTime :: "int option"
  isProcessing :: bool
  openaiSessionId :: "string option"
  elevenlabsAbortController :: "controller option"
  openaiAbortController :: "controller option"
  audioBuffer :: "buffer list"
  textBuffer :: js_string
  createdAt :: int

record state_manager =
  connections :: "string \<rightharpoonup> conn_state"
  aborted :: "controller set"

section \<open>StateManager (src/realtime/stateManager.js)\<close>

definition initialize :: "string \<Rightarrow> int \<Rightarrow> int \<Rightarrow> int \<Rightarrow> state_manager \<Rightarrow> state_manager" where
  "initialize cid consultant user now m =
     m\<lparr>connections := (connections m)(cid \<mapsto>
        \<lparr>connectionId = cid,
         consultantId = consultant,
         userId = user,
         isUserSpeaking = False,
         isAISpeaking = False,
         lastUserAudioTime = None,
         lastAIAudioTime = None,
         silenceStartTime = None,
         isProcessing = False,
         openaiSessionId = None,
         elevenlabsAbortController = None,
         openaiAbortController = None,
         audioBuffer = [],
         textBuffer = [],
         createdAt = now\<rparr>)\<rparr>"

definition getState :: "state_manager \<Rightarrow> string \<Rightarrow> conn_state option" where
  "getState m cid = connections m cid"

text \<open>Writing a field of the entry found under \<open>cid\<close>: the entry is a shared object, so
  the assignment is an update of the map at that key.\<close>

definition putState :: "string \<Rightarrow> conn_state \<Rightarrow> state_manager \<Rightarrow> state_manager" where
  "putState cid st m = m\<lparr>connections := (connections m)(cid \<mapsto> st)\<rparr>"

definition setUserSpeaking :: "string \<Rightarrow> bool \<Rightarrow> int \<Rightarrow> state_manager \<Rightarrow> state_manager" where
  "setUserSpeaking cid isSpeaking now m =
     (case getState m cid of
        None \<Rightarrow> m
      | Some st \<Rightarrow>
          (if isSpeaking
           then putState cid (st\<lparr>isUserSpeaking := isSpeaking,
                                  lastUserAudioTime := Some now,
                                  silenceStartTime := None\<rparr>) m
           else putState cid (st\<lparr>isUserSpeaking := isSpeaking,
                                  silenceStartTime := Some now\<rparr>) m))"

definition setAISpeaking :: "string \<Rightarrow> bool \<Rightarrow> int \<Rightarrow> state_manager \<Rightarrow> state_manager" where
  "setAISpeaking cid isSpeaking now m =
     (case getState m cid of
        None \<Rightarrow> m
      | Some st \<Rightarrow>
          (if isSpeaking
           then putState cid (st\<lparr>isAISpeaking := isSpeaking, lastAIAudioTime := Some now\<rparr>) m
           else putState cid (st\<lparr>isAISpeaking := isSpeaking\<rparr>) m))"

definition shouldBargeIn :: "state_manager \<Rightarrow> string \<Rightarrow> bool" where
  "shouldBargeIn m cid =
     (case getState m cid of
        None \<Rightarrow> False
      | Some st \<Rightarrow> isUserSpeaking st \<and> isAISpeaking st)"

definition setOpenAISessionId :: "string \<Rightarrow> string \<Rightarrow> state_manager \<Rightarrow> state_manager" where
  "setOpenAISessionId cid sessionId m =
     (case getState m cid of
        None \<Rightarrow> m
      | Some st \<Rightarrow> putState cid (st\<lparr>openaiSessionId := Some sessionId\<rparr>) m)"

definition setElevenLabsAbortController ::
  "string \<Rightarrow> controller \<Rightarrow> state_manager \<Rightarrow> state_manager" where
  "setElevenLabsAbortController cid c m =
     (case getState m cid of
        None \<Rightarrow> m
      | Some st \<Rightarrow> putState cid (st\<lparr>elevenlabsAbortController := Some c\<rparr>) m)"

definition setOpenAIAbortController ::
  "string \<Rightarrow> controller \<Rightarrow> state_manager \<Rightarrow> state_manager" where
  "setOpenAIAbortController cid c m =
     (case getState m cid of
        None \<Rightarrow> m
      | Some st \<Rightarrow> putState cid (st\<lparr>openaiAbortController := Some c\<rparr>) m)"

text \<open>\<open>controller.abort()\<close> sets the controller's flag; on a controller that is already
  aborted it does nothing.\<close>

definition abort_handle :: "controller option \<Rightarrow> controller set \<Rightarrow> controller set" where
  "abort_handle h ab = (case h of None \<Rightarrow> ab | Some c \<Rightarrow> insert c ab)"

definition abortAIResponse :: "string \<Rightarrow> state_manager \<Rightarrow> state_manager" where
  "abortAIResponse cid m =
     (case getState m cid of
        None \<Rightarrow> m
      | Some st \<Rightarrow>
          putState cid
            (st\<lparr>elevenlabsAbortController := None,
                openaiAbortController := None,
                isAISpeaking := False,
                textBuffer := []\<rparr>)
            (m\<lparr>aborted := abort_handle (openaiAbortController st)
                              (abort_handle (elevenlabsAbortController st) (aborted m))\<rparr>))"

text \<open>\<open>push\<close> appends; \<open>shift\<close> removes the first element.\<close>

definition addAudioChunk :: "string \<Rightarrow> buffer \<Rightarrow> state_manager \<Rightarrow> state_manager" where
  "addAudioChunk cid chunk m =
     (case getState m cid of
        None \<Rightarrow> m
      | Some st \<Rightarrow>
          (let pushed = audioBuffer st @ [chunk]
           in putState cid
                (st\<lparr>audioBuffer := (if length pushed > 100 then tl pushed else pushed)\<rparr>) m))"

definition clearAudioBuffer :: "string \<Rightarrow> state_manager \<Rightarrow> state_manager" where
  "clearAudioBuffer cid m =
     (case getState m cid of
        None \<Rightarrow> m
      | Some st \<Rightarrow> putState cid (st\<lparr>audioBuffer := []\<rparr>) m)"

definition addText :: "string \<Rightarrow> js_string \<Rightarrow> state_manager \<Rightarrow> state_manager" where
  "addText cid text m =
     (case getState m cid of
        None \<Rightarrow> m
      | Some st \<Rightarrow> putState cid (st\<lparr>textBuffer := textBuffer st @ text\<rparr>) m)"

definition clearTextBuffer :: "string \<Rightarrow> state_manager \<Rightarrow> state_manager" where
  "clearTextBuffer cid m =
     (case getState m cid of
        None \<Rightarrow> m
      | Some st \<Rightarrow> putState cid (st\<lparr>textBuffer := []\<rparr>) m)"

text \<open>\<open>!state.silenceStartTime\<close> holds for \<open>null\<close> and for the number \<open>0\<close>.\<close>

definition isSilenceDetected :: "string \<Rightarrow> int \<Rightarrow> int \<Rightarrow> state_manager \<Rightarrow> bool" where
  "isSilenceDetected cid silenceThresholdMs now m =
     (case getState m cid of
        None \<Rightarrow> False
      | Some st \<Rightarrow>
          (case silenceStartTime st of
             None \<Rightarrow> False
           | Some t \<Rightarrow>
               (if t = 0 then False
                else (now - t \<ge> silenceThresholdMs \<and> \<not> isUserSpeaking st))))"

definition remove :: "string \<Rightarrow> state_manager \<Rightarrow> state_manager" where
  "remove cid m =
     (let m' = (case getState m cid of None \<Rightarrow> m | Some st \<Rightarrow> abortAIResponse cid m)
      in m'\<lparr>connections := (connections m')(cid := None)\<rparr>)"

definition getActiveConnections :: "state_manager \<Rightarrow> string set" where
  "getActiveConnections m = dom (connections m)"

text \<open>A run of insertions into the audio buffer of one connection, in order.\<close>

definition addAudioChunks :: "string \<Rightarrow> buffer list \<Rightarrow> state_manager \<Rightarrow> state_manager" where
  "addAudioChunks cid chunks m = foldl (\<lambda>acc c. addAudioChunk cid c acc) m chunks"

text \<open>The manager of a fresh process: no connection, no controller aborted.\<close>

definition empty_manager :: state_manager where
  "empty_manager = \<lparr>connections = Map.empty, aborted = {}\<rparr>"

section \<open>Errors\<close>

text \<open>
  An error object as the code inspects it: its \<open>name\<close>, its \<open>code\<close> (empty when the
  object has none) and its message. \<open>new Error(msg)\<close> has the name \<open>Error\<close> and no code.
\<close>

datatype js_error = JsError (err_name: string) (err_code: string) (err_message: string)

definition Error :: "string \<Rightarrow> js_error" where
  "Error msg = JsError ''Error'' [] msg"

text \<open>The decimal form of a number, as a template literal and \<open>String\<close> give it.\<close>

fun digits :: "nat \<Rightarrow> string" where
  "digits n =
     (if n < 10 then [''0123456789'' ! n]
      else digits (n div 10) @ [''0123456789'' ! (n mod 10)])"

declare digits.simps [simp del]

definition number_string :: "int \<Rightarrow> string" where
  "number_string i = (if i < 0 then CHR ''-'' # digits (nat (- i)) else digits (nat i))"

text \<open>
  The two errors of Node's \<open>Buffer\<close> reads (lib/internal/buffer.js, \<open>boundsError\<close>, and
  lib/internal/errors.js). Both are \<open>RangeError\<close>s. \<open>ERR_BUFFER_OUT_OF_BOUNDS\<close> is thrown
  when the buffer is shorter than the value to read; \<open>ERR_OUT_OF_RANGE\<close> when the offset
  is beyond the last place the value fits, and its message names that place and the
  offset received. In the message an integer above \<open>2^32\<close> is written with its digits in
  groups of three.
\<close>

fun separate_rev :: "string \<Rightarrow> string" where
  "separate_rev (a # b # c # d # rest) = a # b # c # CHR ''_'' # separate_rev (d # rest)"
| "separate_rev s = s"

definition addNumericalSeparator :: "string \<Rightarrow> string" where
  "addNumericalSeparator val = rev (separate_rev (rev val))"

definition ERR_BUFFER_OUT_OF_BOUNDS :: js_error where
  "ERR_BUFFER_OUT_OF_BOUNDS =
     JsError ''RangeError'' ''ERR_BUFFER_OUT_OF_BOUNDS''
       ''Attempt to access memory outside buffer bounds''"

definition ERR_OUT_OF_RANGE :: "nat \<Rightarrow> nat \<Rightarrow> js_error" where
  "ERR_OUT_OF_RANGE limit input =
     JsError ''RangeError'' ''ERR_OUT_OF_RANGE''
       (''The value of '' @ [CHR 0x22] @ ''offset'' @ [CHR 0x22] @ '' is out of range.''
        @ '' It must be >= 0 and <= '' @ digits limit
        @ ''. Received ''
        @ (if input > 2 ^ 32 then addNumericalSeparator (digits input) else digits input))"

text \<open>\<open>boundsError(value, length)\<close> for an integer \<open>value\<close>; the caller passes the buffer's
  length less the size of the value read.\<close>

definition boundsError :: "nat \<Rightarrow> int \<Rightarrow> js_error" where
  "boundsError val len =
     (if len < 0 then ERR_BUFFER_OUT_OF_BOUNDS else ERR_OUT_OF_RANGE (nat len) val)"

text \<open>A value that is \<open>undefined\<close>, \<open>null\<close> or the empty string makes \<open>!v\<close> true.\<close>

definition falsy :: "string option \<Rightarrow> bool" where
  "falsy v = (case v of None \<Rightarrow> True | Some s \<Rightarrow> s = [])"

section \<open>AudioProcessor (src/unnamed/part\_006)\<close>

text \<open>
  Samples and volumes are JavaScript numbers. The model computes with real numbers: the
  rounding of the division, of the sum and of the square root is left out. Which branch
  raises, and which returns, does not depend on it.
\<close>

text \<open>
  Two bytes, little-endian, read as a signed 16-bit integer. When the byte at the offset
  or the one after it is missing, the read throws \<open>boundsError(offset, length - 2)\<close>.
\<close>

definition readInt16LE :: "buffer \<Rightarrow> nat \<Rightarrow> js_error + int" where
  "readInt16LE buf offset =
     (if offset + 1 < length buf
      then (let v = int (unat (buf ! offset)) + 256 * int (unat (buf ! (offset + 1)))
            in Inr (if v \<ge> 32768 then v - 65536 else v))
      else Inl (boundsError offset (int (length buf) - 2)))"

function calculateRMS_loop :: "buffer \<Rightarrow> nat \<Rightarrow> real \<Rightarrow> js_error + real" where
  "calculateRMS_loop buf i sum_acc =
     (if i < length buf
      then (case readInt16LE buf i of
              Inl e \<Rightarrow> Inl e
            | Inr sample \<Rightarrow>
                (let normalized = real_of_int sample / 32768
                 in calculateRMS_loop buf (i + 2) (sum_acc + normalized * normalized)))
      else Inr sum_acc)"
  by pat_completeness auto
termination
  by (relation "measure (\<lambda>(buf, i, sum_acc). length buf - i)") auto

declare calculateRMS_loop.simps [simp del]

definition calculateRMS :: "buffer \<Rightarrow> js_error + real" where
  "calculateRMS audioBuf =
     (if length audioBuf = 0 then Inr 0
      else (let samples = real (length audioBuf) / 2
            in (case calculateRMS_loop audioBuf 0 0 of
                  Inl e \<Rightarrow> Inl e
                | Inr sum_acc \<Rightarrow> Inr (sqrt (sum_acc / samples)))))"

definition isAudioAboveThreshold :: "buffer \<Rightarrow> real \<Rightarrow> js_error + bool" where
  "isAudioAboveThreshold audioBuf thresh =
     (case calculateRMS audioBuf of
        Inl e \<Rightarrow> Inl e
      | Inr rms \<Rightarrow> Inr (rms > thresh))"

record audio_info =
  isSilent :: bool
  volume :: real
  threshold :: real

definition processAudioChunk :: "buffer \<Rightarrow> real \<Rightarrow> audio_info" where
  "processAudioChunk audioChunk silenceThreshold =
     (if length audioChunk = 0
      then \<lparr>isSilent = True, volume = 0, threshold = silenceThreshold\<rparr>
      else (case calculateRMS audioChunk of
              Inr rms \<Rightarrow>
                \<lparr>isSilent = (rms < silenceThreshold), volume = rms, threshold = silenceThreshold\<rparr>
            | Inl error \<Rightarrow>
                (let nonZeroCount =
                       length (filter (\<lambda>b. b \<noteq> 0) (take (min (length audioChunk) 100) audioChunk));
                     hasActivity = (nonZeroCount > 10)
                 in \<lparr>isSilent = \<not> hasActivity,
                     volume = (if hasActivity then 0.1 else 0),
                     threshold = silenceThreshold\<rparr>)))"

definition combineBuffers :: "buffer list \<Rightarrow> buffer" where
  "combineBuffers buffers = (if length buffers = 0 then [] else concat buffers)"

section \<open>OpenAIRealtimeClient (src/unnamed/part\_010)\<close>

datatype ready_state = CONNECTING | OPEN | CLOSING | CLOSED

text \<open>The messages the code writes to the model session and to the client socket, and the
  calls it makes on the two sockets, in the order it makes them.\<close>

datatype session_msg =
    input_audio_buffer_append buffer
  | input_audio_buffer_commit
  | response_cancel
  | response_create

datatype client_msg =
    connection_success string int
  | barge_in
  | pong
  | error_msg string

datatype action =
    SessionSend session_msg
  | SessionClose
  | ClientSend client_msg
  | ClientClose nat string

definition sendAudioInput :: "ready_state \<Rightarrow> buffer \<Rightarrow> action list" where
  "sendAudioInput session audioBuf =
     (if session \<noteq> OPEN then [] else [SessionSend (input_audio_buffer_append audioBuf)])"

definition signalAudioInputDone :: "ready_state \<Rightarrow> action list" where
  "signalAudioInputDone session =
     (if session \<noteq> OPEN then [] else [SessionSend input_audio_buffer_commit])"

definition cancelResponse :: "ready_state \<Rightarrow> action list" where
  "cancelResponse session =
     (if session \<noteq> OPEN then [] else [SessionSend response_cancel])"

definition closeSession :: "ready_state \<Rightarrow> action list" where
  "closeSession session = (if session = OPEN then [SessionClose] else [])"

text \<open>
  \<open>createSession\<close> waits on a promise with three ways to settle: the socket's \<open>open\<close>
  event resolves it, its \<open>error\<close> event rejects it, and the 10-second timer rejects it
  with \<open>Error('Connection timeout')\<close> when the socket is not open at that moment. The
  model takes the events in the order they happen; the timer event carries the
  \<open>readyState\<close> it reads. A sequence in which nothing settles the promise gives \<open>None\<close>.
\<close>

datatype ws_event = WsOpen | WsError js_error | TimerFired ready_state

definition connection_timeout :: js_error where
  "connection_timeout = Error ''Connection timeout''"

fun wait_for_connection :: "ws_event list \<Rightarrow> (js_error + unit) option" where
  "wait_for_connection [] = None"
| "wait_for_connection (WsOpen # es) = Some (Inr ())"
| "wait_for_connection (WsError e # es) = Some (Inl e)"
| "wait_for_connection (TimerFired rs # es) =
     (if rs \<noteq> OPEN then Some (Inl connection_timeout) else wait_for_connection es)"

record openai_session =
  session :: ready_state
  sessionId :: string

definition createSession ::
  "string option \<Rightarrow> ws_event list \<Rightarrow> string \<Rightarrow> (js_error + openai_session) option" where
  "createSession apiKey events sid =
     (if falsy apiKey then Some (Inl (Error ''OPENAI_API_KEY is not configured''))
      else (case wait_for_connection events of
              None \<Rightarrow> None
            | Some (Inl e) \<Rightarrow> Some (Inl e)
            | Some (Inr u) \<Rightarrow> Some (Inr \<lparr>session = OPEN, sessionId = sid\<rparr>)))"

section \<open>ElevenLabsStreamingClient (src/realtime/elevenLabsStreamingClient.js)\<close>

text \<open>
  \<open>String.prototype.trim\<close> removes the white space and line terminators of ECMAScript
  from both ends.
\<close>

definition js_whitespace :: "16 word \<Rightarrow> bool" where
  "js_whitespace c =
     (c = 0x0009 \<or> c = 0x000A \<or> c = 0x000B \<or> c = 0x000C \<or> c = 0x000D \<or> c = 0x0020 \<or>
      c = 0x00A0 \<or> c = 0x1680 \<or> (0x2000 \<le> c \<and> c \<le> 0x200A) \<or> c = 0x2028 \<or> c = 0x2029 \<or>
      c = 0x202F \<or> c = 0x205F \<or> c = 0x3000 \<or> c = 0xFEFF)"

definition trim :: "js_string \<Rightarrow> js_string" where
  "trim s = rev (dropWhile js_whitespace (rev (dropWhile js_whitespace s)))"

text \<open>The events the client emits to its listeners.\<close>

datatype tts_event =
    audio_chunk buffer
  | stream_end
  | stream_aborted
  | error_event js_error

text \<open>
  What happens on the response stream after \<open>axios.post\<close> has returned it, in order:
  the stream's \<open>data\<close>, \<open>end\<close> and \<open>error\<close> events, and, between them, calls of
  \<open>abort()\<close> on a controller made elsewhere (by \<open>abortAIResponse\<close> or by the chunk
  handler of the server).
\<close>

datatype stream_event =
    on_data buffer
  | on_end
  | on_error js_error
  | abort_called controller

datatype axios_outcome = Responded "stream_event list" | PostRejected js_error

text \<open>\<open>abortController?.signal.aborted\<close>: without a controller the value is \<open>undefined\<close>.\<close>

definition signal_aborted :: "controller option \<Rightarrow> controller set \<Rightarrow> bool" where
  "signal_aborted abortController ab =
     (case abortController of None \<Rightarrow> False | Some c \<Rightarrow> c \<in> ab)"

text \<open>The three handlers registered on \<open>response.data\<close> (lines 79-109).\<close>

fun response_handlers ::
  "controller option \<Rightarrow> controller set \<Rightarrow> stream_event list \<Rightarrow> tts_event list" where
  "response_handlers abortController ab [] = []"
| "response_handlers abortController ab (on_data chunk # es) =
     (if signal_aborted abortController ab then response_handlers abortController ab es
      else audio_chunk chunk # response_handlers abortController ab es)"
| "response_handlers abortController ab (on_end # es) =
     stream_end # response_handlers abortController ab es"
| "response_handlers abortController ab (on_error e # es) =
     (if \<not> signal_aborted abortController ab
      then error_event e # response_handlers abortController ab es
      else response_handlers abortController ab es)"
| "response_handlers abortController ab (abort_called c # es) =
     response_handlers abortController (insert c ab) es"

text \<open>
  The result of one call: how the returned promise settles, the \<open>axios.post\<close> requests
  made (text and voice), and the events emitted, during the call and later by the
  handlers it registered.
\<close>

record tts_result =
  settled :: "js_error + unit"
  requests :: "(js_string \<times> string option) list"
  emitted :: "tts_event list"

definition is_cancel :: "js_error \<Rightarrow> bool" where
  "is_cancel e = (err_name e = ''AbortError'' \<or> err_code e = ''ERR_CANCELED'')"

definition streamTextToSpeech ::
  "string option \<Rightarrow> js_string \<Rightarrow> string option \<Rightarrow> controller option \<Rightarrow> controller set \<Rightarrow>
   axios_outcome \<Rightarrow> tts_result" where
  "streamTextToSpeech apiKey text voice abortController ab axios =
     (if falsy apiKey
      then \<lparr>settled = Inl (Error ''ElevenLabs API key not configured''), requests = [], emitted = []\<rparr>
      else if falsy voice
      then \<lparr>settled = Inl (Error ''Voice ID is required''), requests = [], emitted = []\<rparr>
      else if text = [] \<or> trim text = []
      then \<lparr>settled = Inl (Error ''Text is required''), requests = [], emitted = []\<rparr>
      else (case axios of
              Responded events \<Rightarrow>
                \<lparr>settled = Inr (), requests = [(text, voice)],
                 emitted = response_handlers abortController ab events\<rparr>
            | PostRejected error \<Rightarrow>
                (if is_cancel error
                 then \<lparr>settled = Inr (), requests = [(text, voice)], emitted = [stream_aborted]\<rparr>
                 else \<lparr>settled = Inl error, requests = [(text, voice)], emitted = []\<rparr>)))"

definition streamTextDelta ::
  "string option \<Rightarrow> js_string \<Rightarrow> string option \<Rightarrow> controller option \<Rightarrow> controller set \<Rightarrow>
   axios_outcome \<Rightarrow> tts_result" where
  "streamTextDelta apiKey textDelta voice abortController ab axios =
     (if textDelta = [] \<or> trim textDelta = []
      then \<lparr>settled = Inr (), requests = [], emitted = []\<rparr>
      else streamTextToSpeech apiKey textDelta voice abortController ab axios)"

section \<open>RealtimeServer (src/unnamed/part\_011)\<close>

text \<open>The two settings the constructor fixes.\<close>

definition silenceThreshold :: real where
  "silenceThreshold = 0.005"

definition silenceDurationMs :: int where
  "silenceDurationMs = 1000"

text \<open>\<open>openaiSession && openaiSession.readyState === WebSocket.OPEN\<close>: the session may
  be \<open>null\<close>.\<close>

definition session_open :: "ready_state option \<Rightarrow> bool" where
  "session_open openaiSession = (case openaiSession of None \<Rightarrow> False | Some rs \<Rightarrow> rs = OPEN)"

text \<open>A call of a client operation on the session, made under that guard.\<close>

definition on_session :: "ready_state option \<Rightarrow> (ready_state \<Rightarrow> action list) \<Rightarrow> action list" where
  "on_session openaiSession f = (case openaiSession of None \<Rightarrow> [] | Some rs \<Rightarrow> f rs)"

text \<open>
  \<open>handleAudioChunk\<close> has no \<open>await\<close>: one call runs to its end before anything else
  touches the state. It reads the clock twice, in \<open>setUserSpeaking\<close> (\<open>now1\<close>) and in
  \<open>isSilenceDetected\<close> (\<open>now2\<close>). The result is the new state and the calls made on the
  two sockets.
\<close>

definition handleAudioChunk ::
  "string \<Rightarrow> buffer \<Rightarrow> ready_state option \<Rightarrow> int \<Rightarrow> int \<Rightarrow> state_manager \<Rightarrow>
   state_manager \<times> action list" where
  "handleAudioChunk cid audioChunk openaiSession now1 now2 m =
     (case getState m cid of
        None \<Rightarrow> (m, [])
      | Some state \<Rightarrow>
          (let m1 = addAudioChunk cid audioChunk m;
               audioInfo = processAudioChunk audioChunk silenceThreshold;
               userSpeaking = \<not> isSilent audioInfo;
               m2 = setUserSpeaking cid userSpeaking now1 m1;
               bargeIn = shouldBargeIn m2 cid;
               m3 = (if bargeIn then abortAIResponse cid m2 else m2);
               a3 = (if bargeIn
                     then (if session_open openaiSession
                           then on_session openaiSession cancelResponse else [])
                          @ [ClientSend barge_in]
                     else []);
               a4 = (if userSpeaking
                     then (if session_open openaiSession
                           then on_session openaiSession (\<lambda>s. sendAudioInput s audioChunk) else [])
                     else []);
               silence = isSilenceDetected cid silenceDurationMs now2 m3;
               a5 = (if silence
                     then (if session_open openaiSession
                           then on_session openaiSession signalAudioInputDone else [])
                     else []);
               m5 = (if silence then clearAudioBuffer cid m3 else m3)
           in (m5, a3 @ a4 @ a5)))"

text \<open>
  \<open>cleanupConnection\<close>: abort the agent's output, close the model session if there is
  one, remove the entry. The removal of event listeners that precedes these steps is
  outside the model. With no session to close the function has no \<open>await\<close>, and runs
  to its end inside the caller's step.
\<close>

definition cleanupConnection ::
  "string \<Rightarrow> ready_state option \<Rightarrow> state_manager \<Rightarrow> state_manager \<times> action list" where
  "cleanupConnection cid openaiSession m =
     (let m1 = abortAIResponse cid m;
          a = on_session openaiSession closeSession;
          m2 = remove cid m1
      in (m2, a))"

definition make_connectionId :: "int \<Rightarrow> int \<Rightarrow> int \<Rightarrow> string" where
  "make_connectionId user consultant now =
     number_string user @ ''_'' @ number_string consultant @ ''_'' @ number_string now"

datatype auth_result = auth_failed string | auth_ok int int

record consultant =
  voiceId :: "string option"
  mainPrompt :: "string option"

datatype setup_outcome =
    closed_early string
  | setup_failed js_error
  | established openai_session

text \<open>
  \<open>handleConnection\<close> up to the end of the setup. The arguments are what the awaited
  calls give: the authentication result, the consultant looked up (or the error of the
  lookup), the error of the user lookup if it has one, and the events of the model
  socket. \<open>wsState\<close> is the client socket's \<open>readyState\<close> when the \<open>catch\<close> block reads it.
  The result is \<open>None\<close> when the session promise never settles. On success the code goes
  on to register its listeners and the greeting timer; they are outside the model.
\<close>

definition handleConnection ::
  "ready_state \<Rightarrow> auth_result \<Rightarrow> js_error + consultant option \<Rightarrow> js_error option \<Rightarrow>
   string option \<Rightarrow> ws_event list \<Rightarrow> string \<Rightarrow> int \<Rightarrow> state_manager \<Rightarrow>
   (state_manager \<times> action list \<times> setup_outcome) option" where
  "handleConnection wsState authResult consultantLookup userLookup apiKey events sid now m =
     (case authResult of
        auth_failed err \<Rightarrow> Some (m, [ClientClose 1008 err], closed_early err)
      | auth_ok user consultant \<Rightarrow>
          (let cid = make_connectionId user consultant now;
               on_catch = (\<lambda>e m'.
                 (let a1 = (if wsState = OPEN then [ClientClose 1011 ''Internal server error''] else []);
                      (m'', a2) = (if cid \<noteq> [] then cleanupConnection cid None m' else (m', []))
                  in Some (m'', a1 @ a2, setup_failed e)))
           in (case consultantLookup of
                 Inl e \<Rightarrow> on_catch e m
               | Inr None \<Rightarrow>
                   Some (m, [ClientClose 1008 ''Consultant not found''],
                         closed_early ''Consultant not found'')
               | Inr (Some c) \<Rightarrow>
                   (if falsy (voiceId c)
                    then Some (m, [ClientClose 1008 ''Consultant voice ID not configured''],
                               closed_early ''Consultant voice ID not configured'')
                    else (let m1 = initialize cid consultant user now m
                          in (case userLookup of
                                Some e \<Rightarrow> on_catch e m1
                              | None \<Rightarrow>
                                  (case createSession apiKey events sid of
                                     None \<Rightarrow> None
                                   | Some (Inl e) \<Rightarrow> on_catch e m1
                                   | Some (Inr openaiSession) \<Rightarrow>
                                       Some (setOpenAISessionId cid (sessionId openaiSession) m1,
                                             [ClientSend (connection_success cid consultant)],
                                             established openaiSession))))))))"

section \<open>Inputs for the concrete checks\<close>

text \<open>\<open>n\<close> one-byte frames, the \<open>k\<close>-th holding the byte \<open>k\<close>.\<close>

definition frames :: "nat \<Rightarrow> buffer list" where
  "frames n = map (\<lambda>k. [word_of_nat k]) [0..<n]"

text \<open>A connection set up at time 1000 for user 7 and consultant 3.\<close>

definition fresh_manager :: state_manager where
  "fresh_manager = initialize ''7_3_1000'' 3 7 1000 empty_manager"

text \<open>The same connection while the agent speaks, with a synthesis stream under
  controller 1.\<close>

definition speaking_manager :: state_manager where
  "speaking_manager =
     setElevenLabsAbortController ''7_3_1000'' 1
       (setAISpeaking ''7_3_1000'' True 1500 fresh_manager)"

text \<open>The error with which axios ends a request or a response stream whose signal was
  aborted.\<close>

definition canceled :: js_error where
  "canceled = JsError ''CanceledError'' ''ERR_CANCELED'' ''canceled''"

section \<open>Properties of the StateManager\<close>

lemmas sm_defs = getState_def putState_def setUserSpeaking_def setAISpeaking_def
  shouldBargeIn_def setOpenAISessionId_def setElevenLabsAbortController_def
  setOpenAIAbortController_def abortAIResponse_def addAudioChunk_def clearAudioBuffer_def
  addText_def clearTextBuffer_def isSilenceDetected_def remove_def

lemma delete_absent:
  "connections m cid = None \<Longrightarrow> m\<lparr>connections := (connections m)(cid := None)\<rparr> = m"
  by (cases m) (simp add: fun_upd_idem)

lemma fresh_manager_entry:
  "getState fresh_manager ''7_3_1000'' =
     Some \<lparr>connectionId = ''7_3_1000'', consultantId = 3, userId = 7,
           isUserSpeaking = False, isAISpeaking = False,
           lastUserAudioTime = None, lastAIAudioTime = None, silenceStartTime = None,
           isProcessing = False, openaiSessionId = None,
           elevenlabsAbortController = None, openaiAbortController = None,
           audioBuffer = [], textBuffer = [], createdAt = 1000\<rparr>"
  by (simp add: fresh_manager_def initialize_def getState_def)

lemma speaking_manager_entry:
  "getState speaking_manager ''7_3_1000'' =
     Some \<lparr>connectionId = ''7_3_1000'', consultantId = 3, userId = 7,
           isUserSpeaking = False, isAISpeaking = True,
           lastUserAudioTime = None, lastAIAudioTime = Some 1500, silenceStartTime = None,
           isProcessing = False, openaiSessionId = None,
           elevenlabsAbortController = Some 1, openaiAbortController = None,
           audioBuffer = [], textBuffer = [], createdAt = 1000\<rparr>"
  by (simp add: speaking_manager_def fresh_manager_def initialize_def empty_manager_def
      setElevenLabsAbortController_def setAISpeaking_def getState_def putState_def)

lemma speaking_manager_aborted: "aborted speaking_manager = {}"
  by (simp add: speaking_manager_def fresh_manager_def initialize_def empty_manager_def
      setElevenLabsAbortController_def setAISpeaking_def getState_def putState_def)

subsection \<open>Operations on an absent connection\<close>

text \<open>
  Claim C10. When no entry exists for a connection id, \<open>getState\<close> gives \<open>null\<close>, the two
  boolean queries give \<open>false\<close>, and every mutating operation, \<open>remove\<close> included, returns
  the manager as it was. All the operations are total functions of the model: none has
  a branch that raises.
\<close>

theorem absent_connection_operations_neutral:
  assumes "connections m cid = None"
  shows "getState m cid = None
    \<and> shouldBargeIn m cid = False
    \<and> isSilenceDetected cid thr now m = False
    \<and> setUserSpeaking cid b now m = m
    \<and> setAISpeaking cid b now m = m
    \<and> setOpenAISessionId cid sid m = m
    \<and> setElevenLabsAbortController cid c m = m
    \<and> setOpenAIAbortController cid c m = m
    \<and> abortAIResponse cid m = m
    \<and> addAudioChunk cid chunk m = m
    \<and> clearAudioBuffer cid m = m
    \<and> addText cid t m = m
    \<and> clearTextBuffer cid m = m
    \<and> remove cid m = m"
  using assms by (simp add: sm_defs delete_absent)

theorem absent_connection_operations_neutral_witness:
  "connections (remove ''7_3_1000'' fresh_manager) ''7_3_1000'' = None
   \<and> getState (remove ''7_3_1000'' fresh_manager) ''7_3_1000'' = None
   \<and> shouldBargeIn (remove ''7_3_1000'' fresh_manager) ''7_3_1000'' = False
   \<and> setUserSpeaking ''7_3_1000'' True 2000 (remove ''7_3_1000'' fresh_manager)
       = remove ''7_3_1000'' fresh_manager
   \<and> addAudioChunk ''7_3_1000'' [1, 2] (remove ''7_3_1000'' fresh_manager)
       = remove ''7_3_1000'' fresh_manager
   \<and> remove ''7_3_1000'' (remove ''7_3_1000'' fresh_manager)
       = remove ''7_3_1000'' fresh_manager"
proof -
  have h: "connections (remove ''7_3_1000'' fresh_manager) ''7_3_1000'' = None"
    by (simp add: remove_def Let_def)
  show ?thesis
    using h absent_connection_operations_neutral [OF h] by simp
qed

subsection \<open>Creating an entry twice\<close>

text \<open>
  Claim C7, as the code has it. \<open>initialize\<close> has no check for an existing entry: it
  stores a fresh entry under the id whatever was there, and it cannot fail. The
  controllers' flags are untouched, so handles held by a replaced entry are dropped
  without being aborted.
\<close>

theorem initialize_replaces_entry:
  "getState (initialize cid consultant user now m) cid =
     Some \<lparr>connectionId = cid, consultantId = consultant, userId = user,
           isUserSpeaking = False, isAISpeaking = False,
           lastUserAudioTime = None, lastAIAudioTime = None, silenceStartTime = None,
           isProcessing = False, openaiSessionId = None,
           elevenlabsAbortController = None, openaiAbortController = None,
           audioBuffer = [], textBuffer = [], createdAt = now\<rparr>
   \<and> aborted (initialize cid consultant user now m) = aborted m"
  by (simp add: initialize_def getState_def)

text \<open>
  Claim C7, as stated, fails: a second \<open>initialize\<close> for an id that has an entry (here one
  where the agent is speaking and text is pending) succeeds and leaves a fresh entry in
  its place.
\<close>

theorem initialize_existing_counterexample:
  "map_option isAISpeaking
      (getState (addText ''7_3_1000'' [0x48, 0x69]
         (setAISpeaking ''7_3_1000'' True 1500 fresh_manager)) ''7_3_1000'') = Some True
   \<and> map_option (\<lambda>s. (isAISpeaking s, textBuffer s, createdAt s))
      (getState (initialize ''7_3_1000'' 3 7 2000
         (addText ''7_3_1000'' [0x48, 0x69]
            (setAISpeaking ''7_3_1000'' True 1500 fresh_manager))) ''7_3_1000'')
     = Some (False, [], 2000)"
  by (simp add: fresh_manager_def initialize_def sm_defs)

subsection \<open>The start of silence\<close>

text \<open>
  Claim C2 at a concrete input. The user speaks at 1200 and stops at 2000, so the
  silence starts at 2000. A further \<open>setUserSpeaking(id, false)\<close> at 2500, with the user
  already silent, moves \<open>silenceStartTime\<close> to 2500: the assignment in the \<open>else\<close> branch
  is outside the test of \<open>wasSpeaking\<close>. On a fresh entry, where nobody has spoken, the
  same call makes \<open>silenceStartTime\<close> non-null.
\<close>

theorem setUserSpeaking_false_moves_silence_start:
  "map_option silenceStartTime
      (getState (setUserSpeaking ''7_3_1000'' False 2000
         (setUserSpeaking ''7_3_1000'' True 1200 fresh_manager)) ''7_3_1000'')
     = Some (Some 2000)
   \<and> map_option silenceStartTime
      (getState (setUserSpeaking ''7_3_1000'' False 2500
         (setUserSpeaking ''7_3_1000'' False 2000
            (setUserSpeaking ''7_3_1000'' True 1200 fresh_manager))) ''7_3_1000'')
     = Some (Some 2500)
   \<and> map_option silenceStartTime
      (getState (setUserSpeaking ''7_3_1000'' False 2500 fresh_manager) ''7_3_1000'')
     = Some (Some 2500)"
  by (simp add: fresh_manager_def initialize_def sm_defs)

subsection \<open>Cancelling the agent's output\<close>

text \<open>
  Claim C8, as the code has it. For a connection with an entry, \<open>abortAIResponse\<close> run
  twice gives the state that one run gives. One run changes the entry of that connection
  and the controllers' flags, and nothing else: the agent is not speaking, the text
  buffer is empty, both controller fields are \<open>null\<close>, and the aborted controllers are
  those aborted before together with the ones the entry held. So with no controller held
  none is aborted, but the flag and the text are reset all the same: the call leaves the
  state as it was exactly when the entry held no controller, the agent was not speaking
  and no text was pending.
\<close>

theorem abortAIResponse_idempotent:
  assumes "getState m cid = Some st"
  shows "abortAIResponse cid (abortAIResponse cid m) = abortAIResponse cid m
    \<and> abortAIResponse cid m =
        m\<lparr>connections := (connections m)(cid \<mapsto>
             st\<lparr>elevenlabsAbortController := None, openaiAbortController := None,
                isAISpeaking := False, textBuffer := []\<rparr>),
          aborted := aborted m \<union> set_option (elevenlabsAbortController st)
                               \<union> set_option (openaiAbortController st)\<rparr>
    \<and> getState (abortAIResponse cid m) cid =
        Some (st\<lparr>elevenlabsAbortController := None, openaiAbortController := None,
                isAISpeaking := False, textBuffer := []\<rparr>)
    \<and> aborted (abortAIResponse cid m) =
        aborted m \<union> set_option (elevenlabsAbortController st)
                  \<union> set_option (openaiAbortController st)
    \<and> (abortAIResponse cid m = m) =
        (elevenlabsAbortController st = None \<and> openaiAbortController st = None
         \<and> \<not> isAISpeaking st \<and> textBuffer st = [])"
proof -
  let ?st' = "st\<lparr>elevenlabsAbortController := None, openaiAbortController := None,
                isAISpeaking := False, textBuffer := []\<rparr>"
  let ?ab' = "aborted m \<union> set_option (elevenlabsAbortController st)
                        \<union> set_option (openaiAbortController st)"
  have h: "abort_handle (openaiAbortController st)
             (abort_handle (elevenlabsAbortController st) (aborted m)) = ?ab'"
    by (cases "elevenlabsAbortController st"; cases "openaiAbortController st")
       (auto simp: abort_handle_def)
  have 2: "abortAIResponse cid m = m\<lparr>connections := (connections m)(cid \<mapsto> ?st'), aborted := ?ab'\<rparr>"
    using assms by (simp add: abortAIResponse_def putState_def h)
  have 1: "abortAIResponse cid (abortAIResponse cid m) = abortAIResponse cid m"
    using assms by (simp add: sm_defs abort_handle_def)
  have 3: "getState (abortAIResponse cid m) cid = Some ?st'"
    by (simp add: 2 getState_def)
  have 4: "aborted (abortAIResponse cid m) = ?ab'"
    by (simp add: 2)
  have 5: "(abortAIResponse cid m = m) =
        (elevenlabsAbortController st = None \<and> openaiAbortController st = None
         \<and> \<not> isAISpeaking st \<and> textBuffer st = [])"
  proof
    assume e: "abortAIResponse cid m = m"
    then have "getState (abortAIResponse cid m) cid = getState m cid" by simp
    then have "?st' = st" using 3 assms by simp
    then have "elevenlabsAbortController ?st' = elevenlabsAbortController st"
      and "openaiAbortController ?st' = openaiAbortController st"
      and "isAISpeaking ?st' = isAISpeaking st"
      and "textBuffer ?st' = textBuffer st"
      by simp_all
    then show "elevenlabsAbortController st = None \<and> openaiAbortController st = None
         \<and> \<not> isAISpeaking st \<and> textBuffer st = []"
      by simp
  next
    assume a: "elevenlabsAbortController st = None \<and> openaiAbortController st = None
         \<and> \<not> isAISpeaking st \<and> textBuffer st = []"
    then have e1: "?st' = st" by simp
    have e2: "(connections m)(cid \<mapsto> st) = connections m"
      using assms by (auto simp: getState_def)
    have e3: "?ab' = aborted m" using a by simp
    have "abortAIResponse cid m = m\<lparr>connections := (connections m)(cid \<mapsto> st), aborted := aborted m\<rparr>"
      by (simp only: 2 e1 e3)
    also have "\<dots> = m" by (simp add: e2)
    finally show "abortAIResponse cid m = m" .
  qed
  show ?thesis using 1 2 3 4 5 by blast
qed

theorem abortAIResponse_idempotent_witness:
  "getState speaking_manager ''7_3_1000'' \<noteq> None
   \<and> map_option elevenlabsAbortController (getState speaking_manager ''7_3_1000'')
       = Some (Some 1)
   \<and> aborted speaking_manager = {}
   \<and> aborted (abortAIResponse ''7_3_1000'' speaking_manager) = {1}
   \<and> map_option (\<lambda>s. (elevenlabsAbortController s, openaiAbortController s,
                       isAISpeaking s, textBuffer s))
        (getState (abortAIResponse ''7_3_1000'' speaking_manager) ''7_3_1000'')
       = Some (None, None, False, [])
   \<and> abortAIResponse ''7_3_1000'' (abortAIResponse ''7_3_1000'' speaking_manager)
       = abortAIResponse ''7_3_1000'' speaking_manager
   \<and> abortAIResponse ''7_3_1000'' speaking_manager \<noteq> speaking_manager
   \<and> abortAIResponse ''7_3_1000'' fresh_manager = fresh_manager"
proof -
  note s = abortAIResponse_idempotent [OF speaking_manager_entry]
  note f = abortAIResponse_idempotent [OF fresh_manager_entry]
  have a: "aborted (abortAIResponse ''7_3_1000'' speaking_manager) = {1}"
    using s [THEN conjunct2, THEN conjunct2, THEN conjunct2, THEN conjunct1]
      speaking_manager_aborted
    by simp
  have g: "map_option (\<lambda>s. (elevenlabsAbortController s, openaiAbortController s,
                       isAISpeaking s, textBuffer s))
        (getState (abortAIResponse ''7_3_1000'' speaking_manager) ''7_3_1000'')
       = Some (None, None, False, [])"
    using s [THEN conjunct2, THEN conjunct2, THEN conjunct1] by simp
  have i: "abortAIResponse ''7_3_1000'' (abortAIResponse ''7_3_1000'' speaking_manager)
       = abortAIResponse ''7_3_1000'' speaking_manager"
    using s by (rule conjunct1)
  have n: "abortAIResponse ''7_3_1000'' speaking_manager \<noteq> speaking_manager"
    using s [THEN conjunct2, THEN conjunct2, THEN conjunct2, THEN conjunct2] by simp
  have e: "abortAIResponse ''7_3_1000'' fresh_manager = fresh_manager"
    using f [THEN conjunct2, THEN conjunct2, THEN conjunct2, THEN conjunct2] by simp
  have h: "map_option elevenlabsAbortController (getState speaking_manager ''7_3_1000'')
       = Some (Some 1)"
    using speaking_manager_entry by simp
  have k: "getState speaking_manager ''7_3_1000'' \<noteq> None"
    using speaking_manager_entry by simp
  show ?thesis
    using k h speaking_manager_aborted a g i n e by blast
qed

text \<open>
  Claim C8, as stated, fails in its last part. An entry holds no controller and the
  agent is not speaking, but text is pending: \<open>abortAIResponse\<close> empties the text buffer.
  An entry holds no controller and the agent is marked as speaking: \<open>abortAIResponse\<close>
  resets the flag. Neither call is a no-op.
\<close>

theorem abortAIResponse_no_handles_counterexample:
  "map_option (\<lambda>s. (elevenlabsAbortController s, openaiAbortController s, isAISpeaking s,
                     textBuffer s))
      (getState (addText ''7_3_1000'' [0x48, 0x69] fresh_manager) ''7_3_1000'')
     = Some (None, None, False, [0x48, 0x69])
   \<and> map_option textBuffer
      (getState (abortAIResponse ''7_3_1000'' (addText ''7_3_1000'' [0x48, 0x69] fresh_manager))
         ''7_3_1000'') = Some []
   \<and> abortAIResponse ''7_3_1000'' (addText ''7_3_1000'' [0x48, 0x69] fresh_manager)
       \<noteq> addText ''7_3_1000'' [0x48, 0x69] fresh_manager
   \<and> map_option (\<lambda>s. (elevenlabsAbortController s, openaiAbortController s, isAISpeaking s))
      (getState (setAISpeaking ''7_3_1000'' True 1500 fresh_manager) ''7_3_1000'')
     = Some (None, None, True)
   \<and> map_option isAISpeaking
      (getState (abortAIResponse ''7_3_1000'' (setAISpeaking ''7_3_1000'' True 1500 fresh_manager))
         ''7_3_1000'') = Some False
   \<and> abortAIResponse ''7_3_1000'' (setAISpeaking ''7_3_1000'' True 1500 fresh_manager)
       \<noteq> setAISpeaking ''7_3_1000'' True 1500 fresh_manager"
proof -
  let ?t = "addText ''7_3_1000'' [0x48, 0x69] fresh_manager"
  let ?s = "setAISpeaking ''7_3_1000'' True 1500 fresh_manager"
  have t1: "map_option (\<lambda>s. (elevenlabsAbortController s, openaiAbortController s,
        isAISpeaking s, textBuffer s)) (getState ?t ''7_3_1000'')
     = Some (None, None, False, [0x48, 0x69])"
    by (simp add: fresh_manager_def initialize_def sm_defs)
  have t2: "map_option textBuffer (getState (abortAIResponse ''7_3_1000'' ?t) ''7_3_1000'')
     = Some []"
    by (simp add: fresh_manager_def initialize_def sm_defs)
  have t3: "abortAIResponse ''7_3_1000'' ?t \<noteq> ?t"
  proof
    assume "abortAIResponse ''7_3_1000'' ?t = ?t"
    then have "map_option textBuffer (getState (abortAIResponse ''7_3_1000'' ?t) ''7_3_1000'')
      = map_option textBuffer (getState ?t ''7_3_1000'')" by simp
    then show False using t1 t2 by (auto simp: map_option_case split: option.splits)
  qed
  have s1: "map_option (\<lambda>s. (elevenlabsAbortController s, openaiAbortController s,
        isAISpeaking s)) (getState ?s ''7_3_1000'') = Some (None, None, True)"
    by (simp add: fresh_manager_def initialize_def sm_defs)
  have s2: "map_option isAISpeaking (getState (abortAIResponse ''7_3_1000'' ?s) ''7_3_1000'')
     = Some False"
    by (simp add: fresh_manager_def initialize_def sm_defs)
  have s3: "abortAIResponse ''7_3_1000'' ?s \<noteq> ?s"
  proof
    assume "abortAIResponse ''7_3_1000'' ?s = ?s"
    then have "map_option isAISpeaking (getState (abortAIResponse ''7_3_1000'' ?s) ''7_3_1000'')
      = map_option isAISpeaking (getState ?s ''7_3_1000'')" by simp
    then show False using s1 s2 by (auto simp: map_option_case split: option.splits)
  qed
  show ?thesis using t1 t2 t3 s1 s2 s3 by blast
qed

subsection \<open>The bounded audio buffer\<close>

lemma addAudioChunk_entry:
  "getState m cid = Some st \<Longrightarrow>
   getState (addAudioChunk cid c m) cid =
     Some (st\<lparr>audioBuffer := (if length (audioBuffer st) \<ge> 100
                               then tl (audioBuffer st @ [c]) else audioBuffer st @ [c])\<rparr>)"
  by (simp add: sm_defs Let_def)

lemma addAudioChunks_buffer:
  "getState m cid = Some st \<Longrightarrow> length (audioBuffer st) \<le> 100 \<Longrightarrow>
   map_option audioBuffer (getState (addAudioChunks cid cs m) cid) =
     Some (drop (length (audioBuffer st) + length cs - 100) (audioBuffer st @ cs))"
proof (induction cs arbitrary: m st)
  case Nil
  then show ?case by (simp add: addAudioChunks_def)
next
  case (Cons c cs)
  let ?st' = "st\<lparr>audioBuffer := (if length (audioBuffer st) \<ge> 100
                                  then tl (audioBuffer st @ [c]) else audioBuffer st @ [c])\<rparr>"
  have g: "getState (addAudioChunk cid c m) cid = Some ?st'"
    using Cons.prems(1) by (rule addAudioChunk_entry)
  have l: "length (audioBuffer ?st') \<le> 100" using Cons.prems(2) by auto
  have "addAudioChunks cid (c # cs) m = addAudioChunks cid cs (addAudioChunk cid c m)"
    by (simp add: addAudioChunks_def)
  then have "map_option audioBuffer (getState (addAudioChunks cid (c # cs) m) cid) =
     Some (drop (length (audioBuffer ?st') + length cs - 100) (audioBuffer ?st' @ cs))"
    using Cons.IH[OF g l] by simp
  also have "drop (length (audioBuffer ?st') + length cs - 100) (audioBuffer ?st' @ cs) =
     drop (length (audioBuffer st) + length (c # cs) - 100) (audioBuffer st @ c # cs)"
  proof (cases "length (audioBuffer st) \<ge> 100")
    case True
    then have e: "length (audioBuffer st) = 100" using Cons.prems(2) by simp
    then have ne: "audioBuffer st \<noteq> []" by auto
    show ?thesis using e ne by (simp add: drop_Suc Suc_diff_le)
  next
    case False
    then show ?thesis by simp
  qed
  finally show ?case .
qed

lemma addAudioChunk_keeps_bound:
  "getState m cid = Some st \<Longrightarrow> length (audioBuffer st) \<le> 100 \<Longrightarrow>
   map_option (\<lambda>s. length (audioBuffer s) \<le> 100) (getState (addAudioChunk cid' c m) cid)
     = Some True"
  by (cases "cid' = cid"; cases "getState m cid'") (auto simp: sm_defs Let_def)

lemma clearAudioBuffer_keeps_bound:
  "getState m cid = Some st \<Longrightarrow> length (audioBuffer st) \<le> 100 \<Longrightarrow>
   map_option (\<lambda>s. length (audioBuffer s) \<le> 100) (getState (clearAudioBuffer cid' m) cid)
     = Some True"
  by (cases "cid' = cid"; cases "getState m cid'") (auto simp: sm_defs)

text \<open>
  Claim C9. Take a connection with an entry whose audio buffer holds at most 100 frames
  (every entry does: \<open>initialize\<close> starts it empty, and only \<open>addAudioChunk\<close> and
  \<open>clearAudioBuffer\<close> write it). After any run of insertions the buffer holds at most 100
  frames; after more than 100 insertions it holds exactly 100, the last 100 inserted, in
  insertion order.
\<close>

theorem addAudioChunk_bounded_recent:
  assumes "getState m cid = Some st" and "length (audioBuffer st) \<le> 100"
  shows "map_option (\<lambda>s. length (audioBuffer s) \<le> 100) (getState (addAudioChunks cid cs m) cid)
           = Some True
       \<and> (100 < length cs \<longrightarrow>
            map_option audioBuffer (getState (addAudioChunks cid cs m) cid)
              = Some (drop (length cs - 100) cs)
            \<and> length (drop (length cs - 100) cs) = 100)"
proof -
  have b: "map_option audioBuffer (getState (addAudioChunks cid cs m) cid) =
     Some (drop (length (audioBuffer st) + length cs - 100) (audioBuffer st @ cs))"
    using assms by (rule addAudioChunks_buffer)
  then obtain s where s: "getState (addAudioChunks cid cs m) cid = Some s"
    and sb: "audioBuffer s = drop (length (audioBuffer st) + length cs - 100) (audioBuffer st @ cs)"
    by auto
  have "length (audioBuffer s) \<le> 100" using sb assms(2) by simp
  moreover have "100 < length cs \<Longrightarrow> audioBuffer s = drop (length cs - 100) cs"
    using sb assms(2) by simp
  ultimately show ?thesis using s by simp
qed

theorem addAudioChunk_bounded_recent_witness:
  "getState fresh_manager ''7_3_1000'' \<noteq> None
   \<and> map_option (\<lambda>s. length (audioBuffer s) \<le> 100)
        (getState fresh_manager ''7_3_1000'') = Some True
   \<and> 100 < length (frames 101)
   \<and> map_option audioBuffer
        (getState (addAudioChunks ''7_3_1000'' (frames 101) fresh_manager) ''7_3_1000'')
       = Some (drop 1 (frames 101))"
proof -
  obtain st where g: "getState fresh_manager ''7_3_1000'' = Some st" and b: "audioBuffer st = []"
    using fresh_manager_entry by simp
  have l: "length (audioBuffer st) \<le> 100" using b by simp
  have n: "length (frames 101) = 101" by (simp add: frames_def)
  show ?thesis
    using addAudioChunk_bounded_recent [OF g l, of "frames 101"] g l n by simp
qed

section \<open>Properties of the AudioProcessor\<close>

text \<open>On an odd number of bytes the loop ends in the read at the last byte.\<close>

lemma calculateRMS_loop_odd:
  "odd (length buf) \<Longrightarrow> even i \<Longrightarrow> i < length buf \<Longrightarrow>
   calculateRMS_loop buf i s = Inl (boundsError (length buf - 1) (int (length buf) - 2))"
proof (induction buf i s rule: calculateRMS_loop.induct)
  case (1 buf i s)
  show ?case
  proof (cases "i + 2 \<le> length buf")
    case True
    have "i + 2 \<noteq> length buf" using "1.prems" by (metis even_add even_numeral)
    with True have lt: "i + 2 < length buf" by simp
    obtain v where r: "readInt16LE buf i = Inr v"
      using True by (simp add: readInt16LE_def Let_def)
    show ?thesis
      using "1.IH"[OF _ r refl "1.prems"(1)] "1.prems" lt r
      by (subst calculateRMS_loop.simps) (simp add: Let_def)
  next
    case False
    then have "i = length buf - 1" using "1.prems"(3) by linarith
    then show ?thesis using False "1.prems"
      by (subst calculateRMS_loop.simps) (simp add: readInt16LE_def)
  qed
qed

lemma calculateRMS_loop_even:
  "even (length buf) \<Longrightarrow> even i \<Longrightarrow> 0 \<le> s \<Longrightarrow>
   \<exists>v. calculateRMS_loop buf i s = Inr v \<and> 0 \<le> v"
proof (induction buf i s rule: calculateRMS_loop.induct)
  case (1 buf i s)
  show ?case
  proof (cases "i < length buf")
    case True
    have "i + 1 \<noteq> length buf" using "1.prems" by (metis even_add odd_one)
    with True have le: "i + 2 \<le> length buf" by simp
    obtain v where r: "readInt16LE buf i = Inr v"
      using le by (simp add: readInt16LE_def Let_def)
    have "0 \<le> s + (real_of_int v / 32768) * (real_of_int v / 32768)"
      using "1.prems"(3) by simp
    from "1.IH"[OF True r refl "1.prems"(1) _ this] "1.prems"(2)
    show ?thesis using True r
      by (subst calculateRMS_loop.simps) (simp add: Let_def)
  next
    case False
    then show ?thesis using "1.prems"
      by (subst calculateRMS_loop.simps) simp
  qed
qed

lemma calculateRMS_odd:
  "odd (length buf) \<Longrightarrow>
   calculateRMS buf = Inl (boundsError (length buf - 1) (int (length buf) - 2))"
proof -
  assume o: "odd (length buf)"
  then have "0 < length buf" by (cases buf) auto
  then show ?thesis using o by (simp add: calculateRMS_def calculateRMS_loop_odd)
qed

lemma boundsError_name_code:
  "err_name (boundsError val len) = ''RangeError''
   \<and> err_code (boundsError val len) =
       (if len < 0 then ''ERR_BUFFER_OUT_OF_BOUNDS'' else ''ERR_OUT_OF_RANGE'')"
  by (simp add: boundsError_def ERR_BUFFER_OUT_OF_BOUNDS_def ERR_OUT_OF_RANGE_def)

lemma calculateRMS_even: "even (length buf) \<Longrightarrow> \<exists>v. calculateRMS buf = Inr v \<and> 0 \<le> v"
proof -
  assume e: "even (length buf)"
  obtain s where "calculateRMS_loop buf 0 0 = Inr s" "0 \<le> s"
    using calculateRMS_loop_even[OF e, of 0 0] by auto
  then show ?thesis by (simp add: calculateRMS_def Let_def)
qed

text \<open>One sample of value 16384: the volume is one half.\<close>

lemma calculateRMS_half: "calculateRMS [0x00, 0x40] = Inr (1/2)"
  apply (simp add: calculateRMS_def)
  apply (subst calculateRMS_loop.simps, simp add: readInt16LE_def)
  apply (subst calculateRMS_loop.simps, simp add: real_sqrt_divide)
  done

lemma processAudioChunk_half:
  "processAudioChunk [0x00, 0x40] silenceThreshold =
     \<lparr>isSilent = False, volume = 1/2, threshold = silenceThreshold\<rparr>"
  by (simp add: processAudioChunk_def calculateRMS_half silenceThreshold_def)

text \<open>
  Claim C3, as the code has it. \<open>calculateRMS\<close> returns 0 for the empty buffer. On a
  buffer with an odd number of bytes it raises the \<open>RangeError\<close> of the last 16-bit read
  (\<open>ERR_BUFFER_OUT_OF_BOUNDS\<close> on a single byte, \<open>ERR_OUT_OF_RANGE\<close> on three bytes or
  more), and so does \<open>isAudioAboveThreshold\<close>; on an even number of bytes both return.
  \<open>processAudioChunk\<close> never raises: the empty buffer is silent with volume 0, and on an
  odd number of bytes it catches the error and answers from the count of non-zero bytes
  among the first 100 (volume 0.1 when more than 10 are non-zero, else 0).
\<close>

theorem calculateRMS_raises_on_odd_length:
  "calculateRMS [] = Inr 0
   \<and> (case calculateRMS buf of
        Inl e \<Rightarrow> odd (length buf) \<and> err_name e = ''RangeError''
                 \<and> err_code e = (if length buf < 2 then ''ERR_BUFFER_OUT_OF_BOUNDS''
                                  else ''ERR_OUT_OF_RANGE'')
      | Inr v \<Rightarrow> even (length buf) \<and> 0 \<le> v)
   \<and> (case isAudioAboveThreshold buf t of
        Inl e \<Rightarrow> odd (length buf) \<and> calculateRMS buf = Inl e
      | Inr b \<Rightarrow> even (length buf))
   \<and> processAudioChunk [] t = \<lparr>isSilent = True, volume = 0, threshold = t\<rparr>
   \<and> (if odd (length buf)
      then processAudioChunk buf t =
             (let active = (10 < length (filter (\<lambda>b. b \<noteq> 0) (take 100 buf)))
              in \<lparr>isSilent = \<not> active, volume = (if active then 0.1 else 0), threshold = t\<rparr>)
      else 0 \<le> volume (processAudioChunk buf t)
           \<and> isSilent (processAudioChunk buf t)
               = (buf = [] \<or> volume (processAudioChunk buf t) < t))"
proof (cases "odd (length buf)")
  case True
  then have ne: "length buf \<noteq> 0" by (cases buf) auto
  have r: "calculateRMS buf = Inl (boundsError (length buf - 1) (int (length buf) - 2))"
    using True by (rule calculateRMS_odd)
  have c: "(int (length buf) - 2 < 0) = (length buf < 2)" by linarith
  have m: "min (length buf) 100 = 100 \<or> min (length buf) 100 = length buf" by linarith
  have tk: "take (min (length buf) 100) buf = take 100 buf" using m by auto
  have p: "processAudioChunk buf t =
             (let active = (10 < length (filter (\<lambda>b. b \<noteq> 0) (take 100 buf)))
              in \<lparr>isSilent = \<not> active, volume = (if active then 0.1 else 0), threshold = t\<rparr>)"
    using ne r by (simp add: processAudioChunk_def Let_def tk)
  have z: "calculateRMS [] = Inr 0" by (simp add: calculateRMS_def)
  have e: "processAudioChunk [] t = \<lparr>isSilent = True, volume = 0, threshold = t\<rparr>"
    by (simp add: processAudioChunk_def)
  show ?thesis
    using True r c p z e boundsError_name_code [of "length buf - 1" "int (length buf) - 2"]
    by (simp add: isAudioAboveThreshold_def)
next
  case False
  then obtain v where r: "calculateRMS buf = Inr v" and v: "0 \<le> v"
    using calculateRMS_even by auto
  show ?thesis using False r v
    by (cases "buf = []")
       (simp_all add: isAudioAboveThreshold_def processAudioChunk_def calculateRMS_def)
qed

theorem calculateRMS_raises_on_odd_length_witness:
  "map_sum err_code (\<lambda>v. ()) (calculateRMS [0x10]) = Inl ''ERR_BUFFER_OUT_OF_BOUNDS''
   \<and> map_sum err_code (\<lambda>v. ()) (calculateRMS [0x10, 0x20, 0x30]) = Inl ''ERR_OUT_OF_RANGE''
   \<and> processAudioChunk [0x10, 0x20, 0x30] 0.005
       = \<lparr>isSilent = True, volume = 0, threshold = 0.005\<rparr>
   \<and> processAudioChunk [1, 1, 1, 1, 1, 1, 1, 1, 1, 1, 1] 0.005
       = \<lparr>isSilent = False, volume = 0.1, threshold = 0.005\<rparr>"
  using calculateRMS_raises_on_odd_length [where buf = "[0x10]" and t = "0.005"]
    calculateRMS_raises_on_odd_length [where buf = "[0x10, 0x20, 0x30]" and t = "0.005"]
    calculateRMS_raises_on_odd_length
      [where buf = "[1, 1, 1, 1, 1, 1, 1, 1, 1, 1, 1]" and t = "0.005"]
  by (auto split: sum.splits)

text \<open>
  Claim C3, as stated, fails: on a buffer of three bytes, and on one of a single byte,
  \<open>calculateRMS\<close> raises instead of returning 0, and \<open>isAudioAboveThreshold\<close> passes the
  error on.
\<close>

theorem calculateRMS_odd_counterexample:
  "calculateRMS [0x10, 0x20, 0x30] = Inl (ERR_OUT_OF_RANGE 1 2)
   \<and> calculateRMS [0x10] = Inl ERR_BUFFER_OUT_OF_BOUNDS
   \<and> isAudioAboveThreshold [0x10, 0x20, 0x30] 0.01 = Inl (ERR_OUT_OF_RANGE 1 2)"
proof -
  have o: "odd (length [0x10, 0x20, 0x30 :: 8 word])" by simp
  have l: "length [0x10, 0x20, 0x30 :: 8 word] - 1 = 2" by simp
  have k: "int (length [0x10, 0x20, 0x30 :: 8 word]) - 2 = 1" by simp
  have r3: "calculateRMS [0x10, 0x20, 0x30] = Inl (boundsError 2 1)"
    using calculateRMS_odd [OF o] by (simp only: l k)
  have r1: "calculateRMS [0x10] = Inl (boundsError 0 (- 1))"
    using calculateRMS_odd [of "[0x10]"] by simp
  show ?thesis
    by (simp add: r3 r1 isAudioAboveThreshold_def boundsError_def)
qed

lemma ERR_OUT_OF_RANGE_message:
  "err_message (ERR_OUT_OF_RANGE 1 2) =
     ''The value of '' @ [CHR 0x22] @ ''offset'' @ [CHR 0x22]
     @ '' is out of range. It must be >= 0 and <= 1. Received 2''"
  by (simp add: ERR_OUT_OF_RANGE_def digits.simps)

section \<open>Properties of the synthesis client\<close>

text \<open>Once the controller of a stream is aborted, its handlers emit no audio chunk and no
  error event.\<close>

lemma response_handlers_after_abort:
  "signal_aborted ctrl ab \<Longrightarrow> set (response_handlers ctrl ab es) \<subseteq> {stream_end}"
proof (induction ctrl ab es rule: response_handlers.induct)
  case (5 abortController ab c es)
  then show ?case by (auto simp: signal_aborted_def split: option.splits)
qed auto

text \<open>
  Claim C5 at a concrete input. A stream delivers one chunk, then its controller is
  aborted, then a second chunk arrives and the stream ends with the cancellation error.
  The client emits the first chunk and nothing else: no chunk after the abort and no
  error event, but no \<open>stream_aborted\<close> event either. That event is emitted only when the
  request itself is rejected as cancelled, as the second part shows.
\<close>

theorem streamTextToSpeech_abort_during_stream:
  "streamTextToSpeech (Some ''key'') [0x48, 0x69] (Some ''v1'') (Some 1) {}
       (Responded [on_data [1, 2], abort_called 1, on_data [3, 4], on_error canceled])
     = \<lparr>settled = Inr (), requests = [([0x48, 0x69], Some ''v1'')],
        emitted = [audio_chunk [1, 2]]\<rparr>
   \<and> streamTextToSpeech (Some ''key'') [0x48, 0x69] (Some ''v1'') (Some 1) {1}
       (PostRejected canceled)
     = \<lparr>settled = Inr (), requests = [([0x48, 0x69], Some ''v1'')],
        emitted = [stream_aborted]\<rparr>"
  by (simp add: streamTextToSpeech_def falsy_def trim_def js_whitespace_def
      signal_aborted_def is_cancel_def canceled_def)

text \<open>
  Claim C6, as the code has it. For a text that is empty or only white space,
  \<open>streamTextToSpeech\<close> makes no request and emits nothing, and its promise is rejected:
  with \<open>Text is required\<close> when the key and the voice are set, with the error of the
  earlier check otherwise. \<open>streamTextDelta\<close>, the caller that wraps it, returns at once
  without calling it: no request, no event, no error.
\<close>

theorem empty_text_makes_no_request:
  assumes "text = [] \<or> trim text = []"
  shows "requests (streamTextToSpeech apiKey text voice ctrl ab axios) = []
    \<and> emitted (streamTextToSpeech apiKey text voice ctrl ab axios) = []
    \<and> settled (streamTextToSpeech apiKey text voice ctrl ab axios) =
        Inl (Error (if falsy apiKey then ''ElevenLabs API key not configured''
                    else if falsy voice then ''Voice ID is required''
                    else ''Text is required''))
    \<and> streamTextDelta apiKey text voice ctrl ab axios =
        \<lparr>settled = Inr (), requests = [], emitted = []\<rparr>"
  using assms by (auto simp: streamTextToSpeech_def streamTextDelta_def)

theorem empty_text_makes_no_request_witness:
  "trim [0x20, 0x09, 0x0A] = []
   \<and> requests (streamTextToSpeech (Some ''key'') [0x20, 0x09, 0x0A] (Some ''v1'') None {}
        (Responded [on_data [1, 2], on_end])) = []
   \<and> settled (streamTextToSpeech (Some ''key'') [0x20, 0x09, 0x0A] (Some ''v1'') None {}
        (Responded [on_data [1, 2], on_end])) = Inl (Error ''Text is required'')
   \<and> streamTextDelta (Some ''key'') [0x20, 0x09, 0x0A] (Some ''v1'') None {}
        (Responded [on_data [1, 2], on_end])
       = \<lparr>settled = Inr (), requests = [], emitted = []\<rparr>"
proof -
  have h: "trim [0x20, 0x09, 0x0A] = []" by (simp add: trim_def js_whitespace_def)
  then have h': "[0x20, 0x09, 0x0A] = [] \<or> trim [0x20, 0x09, 0x0A] = []" by simp
  show ?thesis
    using h empty_text_makes_no_request [OF h', of "Some ''key''" "Some ''v1''" None "{}"
        "Responded [on_data [1, 2], on_end]"]
    by (simp add: falsy_def)
qed

text \<open>
  Claim C6, as stated, fails: with the key and the voice set, the synthesis call on the
  empty string ends in an error raised to its caller.
\<close>

theorem empty_text_rejected_counterexample:
  "settled (streamTextToSpeech (Some ''key'') [] (Some ''v1'') None {}
      (Responded [on_data [1, 2], on_end])) = Inl (Error ''Text is required'')"
  by (simp add: streamTextToSpeech_def falsy_def)

section \<open>Properties of the RealtimeServer\<close>

lemmas step_defs = handleAudioChunk_def Let_def getState_def putState_def setUserSpeaking_def
  shouldBargeIn_def abortAIResponse_def addAudioChunk_def clearAudioBuffer_def
  isSilenceDetected_def session_open_def on_session_def cancelResponse_def
  sendAudioInput_def signalAudioInputDone_def

lemma speaking_manager_barge_in_observed:
  "shouldBargeIn (setUserSpeaking ''7_3_1000''
      (\<not> isSilent (processAudioChunk [0x00, 0x40] silenceThreshold)) 2000
      (addAudioChunk ''7_3_1000'' [0x00, 0x40] speaking_manager)) ''7_3_1000''"
  using speaking_manager_entry
  by (simp add: processAudioChunk_half shouldBargeIn_def setUserSpeaking_def addAudioChunk_def
      getState_def putState_def Let_def)

subsection \<open>Barge-in within one audio frame\<close>

text \<open>
  Claim C1, as the code has it. For a connection with an entry, no call of
  \<open>handleAudioChunk\<close> ends with the user and the agent both speaking. When the call finds
  \<open>shouldBargeIn\<close> true after it has updated the user's flag, then within the call:
  \<open>abortAIResponse\<close> runs (the agent's flag is false, the text buffer empty, both
  controller fields \<open>null\<close>, and the controllers the entry held are aborted); the
  \<open>barge_in\<close> message is sent to the client; and \<open>response.cancel\<close> is sent to the model
  exactly when the model session is open.
\<close>

theorem handleAudioChunk_barge_in:
  assumes "getState m cid = Some st"
  shows "\<not> shouldBargeIn (fst (handleAudioChunk cid chunk sess now1 now2 m)) cid
   \<and> (shouldBargeIn (setUserSpeaking cid
          (\<not> isSilent (processAudioChunk chunk silenceThreshold)) now1
          (addAudioChunk cid chunk m)) cid \<longrightarrow>
        ClientSend barge_in \<in> set (snd (handleAudioChunk cid chunk sess now1 now2 m))
      \<and> (SessionSend response_cancel \<in> set (snd (handleAudioChunk cid chunk sess now1 now2 m)))
          = (sess = Some OPEN)
      \<and> map_option (\<lambda>s. (isAISpeaking s, textBuffer s, elevenlabsAbortController s,
                          openaiAbortController s))
          (getState (fst (handleAudioChunk cid chunk sess now1 now2 m)) cid)
          = Some (False, [], None, None)
      \<and> aborted (fst (handleAudioChunk cid chunk sess now1 now2 m)) =
          abort_handle (openaiAbortController st)
            (abort_handle (elevenlabsAbortController st) (aborted m)))"
  using assms
  by (auto simp: step_defs split: option.splits)

theorem handleAudioChunk_barge_in_witness:
  "getState speaking_manager ''7_3_1000'' \<noteq> None
   \<and> shouldBargeIn (setUserSpeaking ''7_3_1000''
          (\<not> isSilent (processAudioChunk [0x00, 0x40] silenceThreshold)) 2000
          (addAudioChunk ''7_3_1000'' [0x00, 0x40] speaking_manager)) ''7_3_1000''
   \<and> ClientSend barge_in
        \<in> set (snd (handleAudioChunk ''7_3_1000'' [0x00, 0x40] (Some OPEN) 2000 2001
                    speaking_manager))
   \<and> SessionSend response_cancel
        \<in> set (snd (handleAudioChunk ''7_3_1000'' [0x00, 0x40] (Some OPEN) 2000 2001
                    speaking_manager))
   \<and> map_option isAISpeaking
        (getState (fst (handleAudioChunk ''7_3_1000'' [0x00, 0x40] (Some OPEN) 2000 2001
           speaking_manager)) ''7_3_1000'') = Some False
   \<and> aborted (fst (handleAudioChunk ''7_3_1000'' [0x00, 0x40] (Some OPEN) 2000 2001
           speaking_manager)) = {1}"
  using handleAudioChunk_barge_in
      [OF speaking_manager_entry, of "[0x00, 0x40]" "Some OPEN" 2000 2001]
    speaking_manager_barge_in_observed speaking_manager_entry speaking_manager_aborted
  by (auto simp: abort_handle_def)

text \<open>
  Claim C1, as stated, fails: the agent is speaking, a frame of volume one half arrives,
  and the model session is closed. The step observes the barge-in, and the only call it
  makes on a socket is the \<open>barge_in\<close> message to the client: no cancel-response goes to
  the model.
\<close>

theorem handleAudioChunk_closed_session_counterexample:
  "shouldBargeIn (setUserSpeaking ''7_3_1000''
      (\<not> isSilent (processAudioChunk [0x00, 0x40] silenceThreshold)) 2000
      (addAudioChunk ''7_3_1000'' [0x00, 0x40] speaking_manager)) ''7_3_1000''
   \<and> snd (handleAudioChunk ''7_3_1000'' [0x00, 0x40] (Some CLOSED) 2000 2001 speaking_manager)
       = [ClientSend barge_in]"
  using speaking_manager_entry speaking_manager_barge_in_observed
  by (simp add: processAudioChunk_half step_defs)

text \<open>The end of the user's turn is signalled to the model only by a step in which the
  two clock readings are at least the silence duration apart.\<close>

lemma handleAudioChunk_commit_needs_slow_step:
  "now2 - now1 < silenceDurationMs \<Longrightarrow>
   SessionSend input_audio_buffer_commit
     \<notin> set (snd (handleAudioChunk cid chunk sess now1 now2 m))"
  by (auto simp: step_defs split: option.splits if_splits)

subsection \<open>A model session that does not open in time\<close>

lemma make_connectionId_nonempty: "make_connectionId user consultant now \<noteq> []"
  by (simp add: make_connectionId_def)

lemma make_connectionId_example: "make_connectionId 7 3 1000 = ''7_3_1000''"
  by (simp add: make_connectionId_def number_string_def digits.simps)

lemma cleanupConnection_removes: "getState (fst (cleanupConnection cid sess m)) cid = None"
  by (simp add: cleanupConnection_def remove_def getState_def Let_def)

text \<open>
  Claim C4. The key is configured, the consultant has a voice, and the timer of
  \<open>createSession\<close> fires before the model socket has opened or failed. Then
  \<open>createSession\<close> is rejected with the connection-timeout error, \<open>handleConnection\<close>
  ends its setup with that error, closes the client socket with code 1011 if it is open,
  and the state entry it had created for the connection is gone.
\<close>

theorem handleConnection_timeout_removes_state:
  assumes "\<not> falsy apiKey" and "rs \<noteq> OPEN" and "\<not> falsy (voiceId c)"
  shows "createSession apiKey (TimerFired rs # es) sid = Some (Inl connection_timeout)
   \<and> map_option
        (\<lambda>(m', acts, out). (getState m' (make_connectionId user consultant now), out, acts))
        (handleConnection wsState (auth_ok user consultant) (Inr (Some c)) None apiKey
           (TimerFired rs # es) sid now m)
     = Some (None, setup_failed connection_timeout,
             if wsState = OPEN then [ClientClose 1011 ''Internal server error''] else [])"
proof -
  have cs: "createSession apiKey (TimerFired rs # es) sid = Some (Inl connection_timeout)"
    using assms by (simp add: createSession_def)
  obtain m2 a2 where cl: "cleanupConnection (make_connectionId user consultant now) None
      (initialize (make_connectionId user consultant now) consultant user now m) = (m2, a2)"
    by (cases "cleanupConnection (make_connectionId user consultant now) None
      (initialize (make_connectionId user consultant now) consultant user now m)")
  have g: "getState m2 (make_connectionId user consultant now) = None"
    using cleanupConnection_removes[of "make_connectionId user consultant now" None] cl
    by (metis fst_conv)
  have a: "a2 = []" using cl by (simp add: cleanupConnection_def on_session_def Let_def)
  show ?thesis
    using assms cs cl g a
    by (simp add: handleConnection_def Let_def make_connectionId_nonempty)
qed

theorem handleConnection_timeout_removes_state_witness:
  "\<not> falsy (Some ''sk-test'') \<and> CONNECTING \<noteq> OPEN
   \<and> \<not> falsy (voiceId \<lparr>voiceId = Some ''v1'', mainPrompt = None\<rparr>)
   \<and> map_option
        (\<lambda>(m', acts, out). (getState m' (make_connectionId 7 3 1000), out, acts))
        (handleConnection OPEN (auth_ok 7 3)
           (Inr (Some \<lparr>voiceId = Some ''v1'', mainPrompt = None\<rparr>)) None (Some ''sk-test'')
           [TimerFired CONNECTING] ''session_1'' 1000 empty_manager)
     = Some (None, setup_failed connection_timeout, [ClientClose 1011 ''Internal server error''])"
proof -
  have h1: "\<not> falsy (Some ''sk-test'')" by (simp add: falsy_def)
  have h2: "CONNECTING \<noteq> OPEN" by simp
  have h3: "\<not> falsy (voiceId \<lparr>voiceId = Some ''v1'', mainPrompt = None\<rparr>)"
    by (simp add: falsy_def)
  show ?thesis
    using handleConnection_timeout_removes_state
        [OF h1 h2 h3, of "[]" "''session_1''" 7 3 1000 OPEN empty_manager] h1 h2 h3
    by simp
qed

end
